theory Spec2Isabelle
  imports Main "HOL-Library.Word"
begin

unbundle bit_operations_syntax

section \<open>Lookup operations of the VFS back end (fsal\_lookup.c)\<close>

text \<open>
  The three entry points of \<^verbatim>\<open>src/FSAL/FSAL_VFS/fsal_lookup.c\<close> are embedded as HOL
  functions: \<^verbatim>\<open>VFSFSAL_lookup\<close>, \<^verbatim>\<open>VFSFSAL_lookupPath\<close> and \<^verbatim>\<open>VFSFSAL_lookupJunction\<close>.

  \<^item> A pointer argument is an \<open>option\<close>: \<open>None\<close> is the NULL pointer, \<open>Some v\<close> a valid
    pointer to a buffer holding \<open>v\<close> when the call starts.
  \<^item> An output parameter is returned, updated, in the result record.
  \<^item> Everything the file calls but does not define (system calls, helpers of other
    files, constants of headers) is a field of the record \<open>fsal_env\<close>, so every theorem
    holds for any behaviour of these collaborators. Each of them is called at most
    once in one run of an entry point, so a function of its arguments loses nothing.
  \<^item> The calls made to the collaborators are recorded, in order, in a trace of events;
    opening, closing and the access check are read off the trace.
  \<^item> Arguments are passed by value. \<^verbatim>\<open>VFSFSAL_lookup\<close> reads the parent handle once
    (line 121), before its first write to the output handle (line 177), so a caller
    that passes the same buffer for both sees the same behaviour.
\<close>

subsection \<open>Status codes\<close>

text \<open>
  The major codes the file and its specification name; any other member of the
  enumeration is \<open>ERR_FSAL_OTHER n\<close>.
\<close>

datatype fsal_errors =
    ERR_FSAL_NO_ERROR
  | ERR_FSAL_FAULT
  | ERR_FSAL_INVAL
  | ERR_FSAL_STALE
  | ERR_FSAL_NOENT
  | ERR_FSAL_NOTDIR
  | ERR_FSAL_XDEV
  | ERR_FSAL_ACCESS
  | ERR_FSAL_IO
  | ERR_FSAL_SERVERFAULT
  | ERR_FSAL_OTHER int

record fsal_status =
  major :: fsal_errors
  minor :: int

text \<open>\<^verbatim>\<open>FSAL_IS_ERROR(status)\<close>: the major code is not \<^verbatim>\<open>ERR_FSAL_NO_ERROR\<close>.\<close>

definition FSAL_IS_ERROR :: "fsal_status \<Rightarrow> bool" where
  "FSAL_IS_ERROR st = (major st \<noteq> ERR_FSAL_NO_ERROR)"

text \<open>
  \<^verbatim>\<open>Return(code, minor, index)\<close> builds the status that the function returns (the call
  statistics it also updates are not observable through the interface and are left out);
  \<^verbatim>\<open>ReturnStatus(status, index)\<close> returns a status it was given.
\<close>

definition Return :: "fsal_errors \<Rightarrow> int \<Rightarrow> fsal_status" where
  "Return code mnr = \<lparr>major = code, minor = mnr\<rparr>"

text \<open>The value of \<^verbatim>\<open>ENOENT\<close> in \<^verbatim>\<open>errno.h\<close>.\<close>

definition ENOENT :: int where
  "ENOENT = 2"

subsection \<open>Data\<close>

text \<open>The kinds \<^verbatim>\<open>posix2fsal_type\<close> can return: the five the switch names, and any other.\<close>

datatype fsal_nodetype =
    FSAL_TYPE_DIR
  | FSAL_TYPE_JUNCTION
  | FSAL_TYPE_FILE
  | FSAL_TYPE_LNK
  | FSAL_TYPE_XATTR
  | FSAL_TYPE_OTHER nat

record vfs_file_handle =
  handle_bytes :: "32 word"
  handle_type :: int
  f_handle :: "8 word list"

text \<open>\<^verbatim>\<open>vfsfsal_handle_t\<close>: the member \<^verbatim>\<open>data.vfs_handle\<close>.\<close>

record vfsfsal_handle =
  data_vfs_handle :: vfs_file_handle

record vfsfsal_export_context =
  root_handle :: vfs_file_handle

record vfsfsal_op_context =
  export_context :: vfsfsal_export_context
  credential :: nat

record fsal_name =
  name :: string

record fsal_path =
  path :: string

record stat =
  st_mode :: "32 word"
  st_ino :: "64 word"

record fsal_attrib_list =
  asked_attributes :: "64 word"
  attr_values :: "nat list"

subsection \<open>Events\<close>

datatype fs_event =
    TakeTokenFSCall
  | ReleaseTokenFSCall
  | Ev_handle2fd vfsfsal_handle
  | Ev_fstat int
  | Ev_close int
  | Ev_testAccess
  | Ev_name_by_handle_at int string
  | Ev_getattrs vfsfsal_handle
  | Ev_Path2Handle string

text \<open>How often the descriptor \<open>fd\<close> is closed in a trace.\<close>

definition closes :: "int \<Rightarrow> fs_event list \<Rightarrow> nat" where
  "closes fd tr = length (filter (\<lambda>e. e = Ev_close fd) tr)"

subsection \<open>Collaborators\<close>

text \<open>
  What the file uses and does not define.
  \<^item> \<open>VFS_HANDLE_LEN\<close>, \<open>FSAL_ATTR_RDATTR_ERR\<close>: constants of the headers.
  \<^item> \<open>posix2fsal_error\<close>, \<open>posix2fsal_type\<close>: the conversions of \<^verbatim>\<open>fsal_convert.c\<close>.
  \<^item> \<open>fsal_internal_handle2fd\<close>: the status and, on success, the descriptor stored
    through \<^verbatim>\<open>&parentfd\<close>.
  \<^item> \<open>fstat\<close>: the return code, \<^verbatim>\<open>errno\<close> after the call, and the buffer filled.
  \<^item> \<open>fsal_internal_testAccess\<close>: the status of the check for \<^verbatim>\<open>FSAL_X_OK\<close>.
  \<^item> \<open>vfs_name_by_handle_at\<close>: from the descriptor, the name and the handle buffer as
    passed in, the return code, \<^verbatim>\<open>errno\<close> after the call and the handle buffer as left.
  \<^item> \<open>VFSFSAL_getattrs\<close>: the status and the attribute list as left.
  \<^item> \<open>fsal_internal_Path2Handle\<close>: the status and the handle buffer as left.
  \<^item> \<open>errsv_indeterminate\<close>: the content of the local variable \<^verbatim>\<open>errsv\<close> of
    \<^verbatim>\<open>VFSFSAL_lookup\<close>, which the function declares (line 76) and never assigns. C leaves
    the value of such a variable open; the model takes it as given, whatever it is.
\<close>

record fsal_env =
  VFS_HANDLE_LEN :: "32 word"
  FSAL_ATTR_RDATTR_ERR :: "64 word"
  posix2fsal_error :: "int \<Rightarrow> fsal_errors"
  posix2fsal_type :: "32 word \<Rightarrow> fsal_nodetype"
  fsal_internal_handle2fd :: "vfsfsal_op_context \<Rightarrow> vfsfsal_handle \<Rightarrow> fsal_status \<times> int"
  fstat :: "int \<Rightarrow> int \<times> int \<times> stat"
  fsal_internal_testAccess :: "vfsfsal_op_context \<Rightarrow> stat \<Rightarrow> fsal_status"
  vfs_name_by_handle_at :: "int \<Rightarrow> string \<Rightarrow> vfs_file_handle \<Rightarrow> int \<times> int \<times> vfs_file_handle"
  VFSFSAL_getattrs :: "vfsfsal_handle \<Rightarrow> vfsfsal_op_context \<Rightarrow> fsal_attrib_list \<Rightarrow> fsal_status \<times> fsal_attrib_list"
  fsal_internal_Path2Handle :: "vfsfsal_op_context \<Rightarrow> fsal_path \<Rightarrow> vfsfsal_handle \<Rightarrow> fsal_status \<times> vfsfsal_handle"
  errsv_indeterminate :: int

subsection \<open>Attribute masks\<close>

text \<open>
  Modelled from the spec: the macro \<^verbatim>\<open>FSAL_CLEAR_MASK\<close> of the headers, which is not in
  the source at hand. The specification says that the mask "is cleared and replaced with a
  single marker bit": clearing gives the empty mask.
\<close>

definition FSAL_CLEAR_MASK :: "64 word \<Rightarrow> 64 word" where
  "FSAL_CLEAR_MASK m = 0"

text \<open>
  Modelled from the spec: the macro \<^verbatim>\<open>FSAL_SET_MASK\<close> of the headers, which is not in
  the source at hand; it adds the bits given to the mask.
\<close>

definition FSAL_SET_MASK :: "64 word \<Rightarrow> 64 word \<Rightarrow> 64 word" where
  "FSAL_SET_MASK m b = m OR b"

subsection \<open>The result of an entry point\<close>

text \<open>
  The status returned, the buffers behind the two output pointers as the call leaves
  them, and the calls made.
\<close>

record lookup_result =
  res_status :: fsal_status
  res_handle :: "vfsfsal_handle option"
  res_attributes :: "fsal_attrib_list option"
  res_trace :: "fs_event list"

subsection \<open>VFSFSAL\_lookup\<close>

text \<open>
  Lines 105--113, 191--199 and 255--263, the same block three times: when attributes
  are asked for, call \<^verbatim>\<open>VFSFSAL_getattrs\<close>; when it fails, clear the mask and set
  \<^verbatim>\<open>FSAL_ATTR_RDATTR_ERR\<close>.
\<close>

definition get_object_attributes ::
  "fsal_env \<Rightarrow> vfsfsal_handle \<Rightarrow> vfsfsal_op_context \<Rightarrow> fsal_attrib_list option
     \<Rightarrow> fsal_attrib_list option \<times> fs_event list" where
  "get_object_attributes env h ctx p_object_attributes =
     (case p_object_attributes of
        None \<Rightarrow> (None, [])
      | Some a \<Rightarrow>
          (let (st, a') = VFSFSAL_getattrs env h ctx a in
           if FSAL_IS_ERROR st
           then (Some (a'\<lparr>asked_attributes :=
                   FSAL_SET_MASK (FSAL_CLEAR_MASK (asked_attributes a')) (FSAL_ATTR_RDATTR_ERR env)\<rparr>),
                 [Ev_getattrs h])
           else (Some a', [Ev_getattrs h])))"

text \<open>Lines 97--116: the root handle is copied into the output handle.\<close>

definition lookup_root ::
  "fsal_env \<Rightarrow> vfsfsal_op_context \<Rightarrow> vfsfsal_handle \<Rightarrow> fsal_attrib_list option \<Rightarrow> lookup_result" where
  "lookup_root env ctx oh p_object_attributes =
     (let oh' = oh\<lparr>data_vfs_handle := root_handle (export_context ctx)\<rparr>;
          (attrs', tr) = get_object_attributes env oh' ctx p_object_attributes
      in \<lparr>res_status = Return ERR_FSAL_NO_ERROR 0, res_handle = Some oh',
          res_attributes = attrs', res_trace = tr\<rparr>)"

text \<open>
  Lines 166--202, reached with the parent open as \<open>parentfd\<close> and its metadata in
  \<open>buffstat\<close>: the access check, the lookup of the name, the attributes. \<open>tr\<close> is the trace
  so far. The exit at line 172 returns without closing \<open>parentfd\<close>.
\<close>

definition lookup_name ::
  "fsal_env \<Rightarrow> int \<Rightarrow> stat \<Rightarrow> fsal_name \<Rightarrow> vfsfsal_op_context \<Rightarrow> vfsfsal_handle
     \<Rightarrow> fsal_attrib_list option \<Rightarrow> fs_event list \<Rightarrow> lookup_result" where
  "lookup_name env parentfd buffstat filename ctx oh p_object_attributes tr =
     (let st = fsal_internal_testAccess env ctx buffstat;
          tr1 = tr @ [Ev_testAccess]
      in if FSAL_IS_ERROR st
         then \<lparr>res_status = st, res_handle = Some oh,
               res_attributes = p_object_attributes, res_trace = tr1\<rparr>
         else
           (let vh1 = (data_vfs_handle oh)\<lparr>handle_bytes := VFS_HANDLE_LEN env\<rparr>;
                (rc, errno, vh2) = vfs_name_by_handle_at env parentfd (name filename) vh1;
                oh2 = oh\<lparr>data_vfs_handle := vh2\<rparr>;
                tr2 = tr1 @ [TakeTokenFSCall, Ev_name_by_handle_at parentfd (name filename)]
            in if rc \<noteq> 0
               then (let errsrv = errno
                     in \<lparr>res_status = Return (posix2fsal_error env errsrv) errsrv,
                         res_handle = Some oh2,
                         res_attributes = p_object_attributes,
                         res_trace = tr2 @ [ReleaseTokenFSCall, Ev_close parentfd]\<rparr>)
               else
                 (let tr3 = tr2 @ [ReleaseTokenFSCall, Ev_close parentfd];
                      (attrs', tr4) = get_object_attributes env oh2 ctx p_object_attributes
                  in \<lparr>res_status = Return ERR_FSAL_NO_ERROR 0, res_handle = Some oh2,
                      res_attributes = attrs', res_trace = tr3 @ tr4\<rparr>)))"

text \<open>
  Lines 118--164: open the parent, fetch its metadata, switch on its kind. After a failed
  \<^verbatim>\<open>fstat\<close> the code stores \<^verbatim>\<open>errno\<close> in \<^verbatim>\<open>errsrv\<close> (line 129) and then tests and returns
  \<^verbatim>\<open>errsv\<close> (lines 136--139), another variable, which was never assigned.
\<close>

definition lookup_parent ::
  "fsal_env \<Rightarrow> vfsfsal_handle \<Rightarrow> fsal_name \<Rightarrow> vfsfsal_op_context \<Rightarrow> vfsfsal_handle
     \<Rightarrow> fsal_attrib_list option \<Rightarrow> lookup_result" where
  "lookup_parent env parent filename ctx oh p_object_attributes =
     (let (st, parentfd) = fsal_internal_handle2fd env ctx parent;
          tr1 = [TakeTokenFSCall, Ev_handle2fd parent, ReleaseTokenFSCall];
          unchanged = (\<lambda>s tr. \<lparr>res_status = s, res_handle = Some oh,
                                res_attributes = p_object_attributes, res_trace = tr\<rparr>)
      in if FSAL_IS_ERROR st then unchanged st tr1
         else
           (let (rc, errno, buffstat) = fstat env parentfd;
                errsrv = errno;
                errsv = errsv_indeterminate env;
                tr2 = tr1 @ [TakeTokenFSCall, Ev_fstat parentfd, ReleaseTokenFSCall]
            in if rc \<noteq> 0
               then (if errsv = ENOENT
                     then unchanged (Return ERR_FSAL_STALE errsv) (tr2 @ [Ev_close parentfd])
                     else unchanged (Return (posix2fsal_error env errsv) errsv)
                            (tr2 @ [Ev_close parentfd]))
               else
                 (case posix2fsal_type env (st_mode buffstat) of
                    FSAL_TYPE_DIR \<Rightarrow>
                      lookup_name env parentfd buffstat filename ctx oh p_object_attributes tr2
                  | FSAL_TYPE_JUNCTION \<Rightarrow>
                      unchanged (Return ERR_FSAL_XDEV 0) (tr2 @ [Ev_close parentfd])
                  | FSAL_TYPE_FILE \<Rightarrow>
                      unchanged (Return ERR_FSAL_NOTDIR 0) (tr2 @ [Ev_close parentfd])
                  | FSAL_TYPE_LNK \<Rightarrow>
                      unchanged (Return ERR_FSAL_NOTDIR 0) (tr2 @ [Ev_close parentfd])
                  | FSAL_TYPE_XATTR \<Rightarrow>
                      unchanged (Return ERR_FSAL_NOTDIR 0) (tr2 @ [Ev_close parentfd])
                  | FSAL_TYPE_OTHER k \<Rightarrow>
                      unchanged (Return ERR_FSAL_SERVERFAULT 0) (tr2 @ [Ev_close parentfd]))))"

text \<open>
  The function, lines 69--204. The two sanity checks (lines 88--94) come first; a call
  with neither parent handle nor name asks for the root.
\<close>

definition VFSFSAL_lookup ::
  "fsal_env \<Rightarrow> vfsfsal_handle option \<Rightarrow> fsal_name option \<Rightarrow> vfsfsal_op_context option
     \<Rightarrow> vfsfsal_handle option \<Rightarrow> fsal_attrib_list option \<Rightarrow> lookup_result" where
  "VFSFSAL_lookup env p_parent_directory_handle p_filename p_context p_object_handle
       p_object_attributes =
     (let fault = \<lparr>res_status = Return ERR_FSAL_FAULT 0, res_handle = p_object_handle,
                   res_attributes = p_object_attributes, res_trace = []\<rparr>
      in case (p_object_handle, p_context) of
           (None, _) \<Rightarrow> fault
         | (Some oh, None) \<Rightarrow> fault
         | (Some oh, Some ctx) \<Rightarrow>
             (case (p_parent_directory_handle, p_filename) of
                (Some parent, None) \<Rightarrow> fault
              | (None, Some filename) \<Rightarrow> fault
              | (None, None) \<Rightarrow> lookup_root env ctx oh p_object_attributes
              | (Some parent, Some filename) \<Rightarrow>
                  lookup_parent env parent filename ctx oh p_object_attributes))"

subsection \<open>VFSFSAL\_lookupPath\<close>

text \<open>
  Lines 228--267. \<^verbatim>\<open>p_path->path[0]\<close> of an empty string is the terminating NUL, which
  is not a slash.
\<close>

definition VFSFSAL_lookupPath ::
  "fsal_env \<Rightarrow> fsal_path option \<Rightarrow> vfsfsal_op_context option \<Rightarrow> vfsfsal_handle option
     \<Rightarrow> fsal_attrib_list option \<Rightarrow> lookup_result" where
  "VFSFSAL_lookupPath env p_path p_context object_handle p_object_attributes =
     (let unchanged = (\<lambda>s tr. \<lparr>res_status = s, res_handle = object_handle,
                                res_attributes = p_object_attributes, res_trace = tr\<rparr>)
      in case (object_handle, p_context, p_path) of
           (None, _, _) \<Rightarrow> unchanged (Return ERR_FSAL_FAULT 0) []
         | (Some oh, None, _) \<Rightarrow> unchanged (Return ERR_FSAL_FAULT 0) []
         | (Some oh, Some ctx, None) \<Rightarrow> unchanged (Return ERR_FSAL_FAULT 0) []
         | (Some oh, Some ctx, Some pth) \<Rightarrow>
             (case path pth of
                [] \<Rightarrow> unchanged (Return ERR_FSAL_INVAL 0) []
              | c # cs \<Rightarrow>
                  if c \<noteq> CHR ''/'' then unchanged (Return ERR_FSAL_INVAL 0) []
                  else
                    (let (st, oh') = fsal_internal_Path2Handle env ctx pth oh;
                         tr1 = [Ev_Path2Handle (path pth)]
                     in if FSAL_IS_ERROR st
                        then \<lparr>res_status = st, res_handle = Some oh',
                              res_attributes = p_object_attributes, res_trace = tr1\<rparr>
                        else
                          (let (attrs', tr2) =
                                 get_object_attributes env oh' ctx p_object_attributes
                           in \<lparr>res_status = Return ERR_FSAL_NO_ERROR 0, res_handle = Some oh',
                               res_attributes = attrs', res_trace = tr1 @ tr2\<rparr>))))"

subsection \<open>VFSFSAL\_lookupJunction\<close>

text \<open>
  Lines 292--353. Everything but the final \<^verbatim>\<open>Return\<close> is commented out in the source; the
  body of the test of \<^verbatim>\<open>p_fsroot_attributes\<close> is empty.
\<close>

definition VFSFSAL_lookupJunction ::
  "vfsfsal_handle option \<Rightarrow> vfsfsal_op_context option \<Rightarrow> vfsfsal_handle option
     \<Rightarrow> fsal_attrib_list option \<Rightarrow> lookup_result" where
  "VFSFSAL_lookupJunction p_junction_handle p_context p_fsoot_handle p_fsroot_attributes =
     (case p_fsroot_attributes of
        Some a \<Rightarrow> \<lparr>res_status = Return ERR_FSAL_NO_ERROR 0, res_handle = p_fsoot_handle,
                   res_attributes = p_fsroot_attributes, res_trace = []\<rparr>
      | None \<Rightarrow> \<lparr>res_status = Return ERR_FSAL_NO_ERROR 0, res_handle = p_fsoot_handle,
                 res_attributes = p_fsroot_attributes, res_trace = []\<rparr>)"

subsection \<open>Called or not\<close>

text \<open>Whether a trace holds a call of the name-lookup primitive.\<close>

fun is_name_lookup :: "fs_event \<Rightarrow> bool" where
  "is_name_lookup (Ev_name_by_handle_at fd n) = True"
| "is_name_lookup e = False"

definition name_lookup_called :: "fs_event list \<Rightarrow> bool" where
  "name_lookup_called tr = list_ex is_name_lookup tr"

subsection \<open>A concrete world\<close>

text \<open>
  One instance of the collaborators, for evaluating the functions: a root, a directory
  that opens as descriptor 3 and holds the single name \<open>a\<close>, an access check that
  allows, and an attribute fetch that fails with an I/O error. The error conversion maps
  the codes 0, \<^verbatim>\<open>ENOENT\<close> (2), \<^verbatim>\<open>EIO\<close> (5), \<^verbatim>\<open>EACCES\<close> (13) and \<^verbatim>\<open>ESTALE\<close> (116); the
  type conversion reads the file-type bits of the mode.
\<close>

definition ex_root_vh :: vfs_file_handle where
  "ex_root_vh = \<lparr>handle_bytes = 8, handle_type = 1, f_handle = [1, 0, 0, 0, 0, 0, 0, 0]\<rparr>"

definition ex_child_vh :: vfs_file_handle where
  "ex_child_vh = \<lparr>handle_bytes = 8, handle_type = 1, f_handle = [9, 0, 0, 0, 0, 0, 0, 0]\<rparr>"

definition ex_dir :: vfsfsal_handle where
  "ex_dir = \<lparr>data_vfs_handle =
     \<lparr>handle_bytes = 8, handle_type = 1, f_handle = [7, 0, 0, 0, 0, 0, 0, 0]\<rparr>\<rparr>"

definition ex_blank :: vfsfsal_handle where
  "ex_blank = \<lparr>data_vfs_handle = \<lparr>handle_bytes = 0, handle_type = 0, f_handle = []\<rparr>\<rparr>"

definition ex_ctx :: vfsfsal_op_context where
  "ex_ctx = \<lparr>export_context = \<lparr>root_handle = ex_root_vh\<rparr>, credential = 1000\<rparr>"

definition ex_attrs :: fsal_attrib_list where
  "ex_attrs = \<lparr>asked_attributes = 0x7, attr_values = []\<rparr>"

definition ex_posix2fsal_error :: "int \<Rightarrow> fsal_errors" where
  "ex_posix2fsal_error e =
     (if e = 0 then ERR_FSAL_NO_ERROR
      else if e = 2 then ERR_FSAL_NOENT
      else if e = 5 then ERR_FSAL_IO
      else if e = 13 then ERR_FSAL_ACCESS
      else if e = 116 then ERR_FSAL_STALE
      else ERR_FSAL_SERVERFAULT)"

definition ex_posix2fsal_type :: "32 word \<Rightarrow> fsal_nodetype" where
  "ex_posix2fsal_type m =
     (let t = m AND 0xF000
      in if t = 0x4000 then FSAL_TYPE_DIR
         else if t = 0x8000 then FSAL_TYPE_FILE
         else if t = 0xA000 then FSAL_TYPE_LNK
         else FSAL_TYPE_OTHER (unat t))"

definition ex_env :: fsal_env where
  "ex_env =
     \<lparr>VFS_HANDLE_LEN = 10,
      FSAL_ATTR_RDATTR_ERR = 0x80000000,
      posix2fsal_error = ex_posix2fsal_error,
      posix2fsal_type = ex_posix2fsal_type,
      fsal_internal_handle2fd = (\<lambda>ctx h. (Return ERR_FSAL_NO_ERROR 0, 3)),
      fstat = (\<lambda>fd. (0, 0, \<lparr>st_mode = 0x41ED, st_ino = 42\<rparr>)),
      fsal_internal_testAccess = (\<lambda>ctx st. Return ERR_FSAL_NO_ERROR 0),
      vfs_name_by_handle_at =
        (\<lambda>fd n vh. if n = ''a'' then (0, 0, ex_child_vh) else (- 1, 2, vh)),
      VFSFSAL_getattrs = (\<lambda>h ctx a. (Return ERR_FSAL_IO 5, a)),
      fsal_internal_Path2Handle =
        (\<lambda>ctx p h. (Return ERR_FSAL_NO_ERROR 0, h\<lparr>data_vfs_handle := ex_child_vh\<rparr>)),
      errsv_indeterminate = 0\<rparr>"

text \<open>The same world with a type conversion that always answers \<open>k\<close>.\<close>

definition ex_env_kind :: "fsal_nodetype \<Rightarrow> fsal_env" where
  "ex_env_kind k = ex_env\<lparr>posix2fsal_type := (\<lambda>m. k)\<rparr>"

text \<open>
  The same world where \<^verbatim>\<open>fstat\<close> fails with \<^verbatim>\<open>ENOENT\<close>, the error conversion is \<open>f\<close>, and
  the unassigned \<^verbatim>\<open>errsv\<close> happens to hold 5.
\<close>

definition ex_env_fstat_enoent :: "(int \<Rightarrow> fsal_errors) \<Rightarrow> fsal_env" where
  "ex_env_fstat_enoent f =
     ex_env\<lparr>posix2fsal_error := f,
            fstat := (\<lambda>fd. (- 1, ENOENT, \<lparr>st_mode = 0, st_ino = 0\<rparr>)),
            errsv_indeterminate := 5\<rparr>"

text \<open>The same world where the access check denies.\<close>

definition ex_env_denied :: fsal_env where
  "ex_env_denied = ex_env\<lparr>fsal_internal_testAccess := (\<lambda>ctx st. Return ERR_FSAL_ACCESS 0)\<rparr>"

section \<open>Properties\<close>

lemmas lookup_defs = VFSFSAL_lookup_def lookup_parent_def lookup_name_def lookup_root_def
  get_object_attributes_def Return_def FSAL_IS_ERROR_def FSAL_SET_MASK_def FSAL_CLEAR_MASK_def
  Let_def

lemmas ex_defs = ex_env_def ex_env_kind_def ex_env_fstat_enoent_def
  ex_env_denied_def ex_ctx_def ex_dir_def ex_blank_def ex_attrs_def ex_root_vh_def
  ex_child_vh_def ex_posix2fsal_error_def ex_posix2fsal_type_def ENOENT_def

subsection \<open>Argument checks and the junction stub\<close>

text \<open>
  Claim C4. For every input, \<^verbatim>\<open>VFSFSAL_lookupJunction\<close> returns the no-error status, leaves the
  output handle (and the attribute list) as it found them, and calls nothing; so it never
  returns a failure, whatever the junction handle is.
\<close>

theorem lookupJunction_always_no_error:
  "res_status (VFSFSAL_lookupJunction p_junction_handle p_context p_fsoot_handle p_fsroot_attributes)
     = \<lparr>major = ERR_FSAL_NO_ERROR, minor = 0\<rparr>
   \<and> \<not> FSAL_IS_ERROR (res_status
         (VFSFSAL_lookupJunction p_junction_handle p_context p_fsoot_handle p_fsroot_attributes))
   \<and> res_handle (VFSFSAL_lookupJunction p_junction_handle p_context p_fsoot_handle p_fsroot_attributes)
     = p_fsoot_handle
   \<and> res_attributes (VFSFSAL_lookupJunction p_junction_handle p_context p_fsoot_handle
         p_fsroot_attributes) = p_fsroot_attributes
   \<and> res_trace (VFSFSAL_lookupJunction p_junction_handle p_context p_fsoot_handle p_fsroot_attributes)
     = []"
  by (simp add: VFSFSAL_lookupJunction_def Return_def FSAL_IS_ERROR_def split: option.split)

text \<open>Claim C4 at two inputs: all pointers valid, and all pointers NULL.\<close>

theorem lookupJunction_always_no_error_witness:
  "res_status (VFSFSAL_lookupJunction (Some ex_dir) (Some ex_ctx) (Some ex_blank) (Some ex_attrs))
     = \<lparr>major = ERR_FSAL_NO_ERROR, minor = 0\<rparr>
   \<and> res_handle (VFSFSAL_lookupJunction (Some ex_dir) (Some ex_ctx) (Some ex_blank) (Some ex_attrs))
     = Some ex_blank
   \<and> res_status (VFSFSAL_lookupJunction None None None None)
     = \<lparr>major = ERR_FSAL_NO_ERROR, minor = 0\<rparr>
   \<and> res_handle (VFSFSAL_lookupJunction None None None None) = None"
  using lookupJunction_always_no_error [of "Some ex_dir" "Some ex_ctx" "Some ex_blank" "Some ex_attrs"]
    lookupJunction_always_no_error [of None None None None]
  by simp

text \<open>
  Claim C9. When exactly one of the parent handle and the name is NULL, \<^verbatim>\<open>VFSFSAL_lookup\<close>
  returns \<^verbatim>\<open>ERR_FSAL_FAULT\<close>; the trace is empty (nothing was opened, no collaborator was
  called) and both output buffers are as before.
\<close>

theorem lookup_one_absent_fault:
  assumes "(p_parent_directory_handle = None) \<noteq> (p_filename = None)"
  shows "VFSFSAL_lookup env p_parent_directory_handle p_filename p_context p_object_handle
           p_object_attributes
         = \<lparr>res_status = \<lparr>major = ERR_FSAL_FAULT, minor = 0\<rparr>, res_handle = p_object_handle,
            res_attributes = p_object_attributes, res_trace = []\<rparr>"
  using assms
  by (cases p_parent_directory_handle; cases p_filename)
     (simp_all add: VFSFSAL_lookup_def Return_def Let_def split: option.split)

text \<open>Claim C9 at a handle without a name, and at a name without a handle.\<close>

theorem lookup_one_absent_fault_witness:
  "VFSFSAL_lookup ex_env (Some ex_dir) None (Some ex_ctx) (Some ex_blank) (Some ex_attrs)
     = \<lparr>res_status = \<lparr>major = ERR_FSAL_FAULT, minor = 0\<rparr>, res_handle = Some ex_blank,
        res_attributes = Some ex_attrs, res_trace = []\<rparr>
   \<and> VFSFSAL_lookup ex_env None (Some \<lparr>name = ''a''\<rparr>) (Some ex_ctx) (Some ex_blank) None
     = \<lparr>res_status = \<lparr>major = ERR_FSAL_FAULT, minor = 0\<rparr>, res_handle = Some ex_blank,
        res_attributes = None, res_trace = []\<rparr>"
  using lookup_one_absent_fault [of "Some ex_dir" None ex_env "Some ex_ctx" "Some ex_blank" "Some ex_attrs"]
    lookup_one_absent_fault [of None "Some \<lparr>name = ''a''\<rparr>" ex_env "Some ex_ctx" "Some ex_blank" None]
  by simp

text \<open>
  Claim C10. \<^verbatim>\<open>VFSFSAL_lookup\<close> with a NULL output handle or a NULL context, and
  \<^verbatim>\<open>VFSFSAL_lookupPath\<close> with a NULL path, output handle or context, return
  \<^verbatim>\<open>ERR_FSAL_FAULT\<close> with an empty trace and the output buffers as before, whatever the
  other arguments are.
\<close>

theorem lookup_null_argument_fault:
  "(p_object_handle = None \<or> p_context = None \<longrightarrow>
      VFSFSAL_lookup env p_parent_directory_handle p_filename p_context p_object_handle
        p_object_attributes
      = \<lparr>res_status = \<lparr>major = ERR_FSAL_FAULT, minor = 0\<rparr>, res_handle = p_object_handle,
         res_attributes = p_object_attributes, res_trace = []\<rparr>)
   \<and> (object_handle = None \<or> p_context = None \<or> p_path = None \<longrightarrow>
      VFSFSAL_lookupPath env p_path p_context object_handle p_object_attributes
      = \<lparr>res_status = \<lparr>major = ERR_FSAL_FAULT, minor = 0\<rparr>, res_handle = object_handle,
         res_attributes = p_object_attributes, res_trace = []\<rparr>)"
  by (auto simp add: VFSFSAL_lookup_def VFSFSAL_lookupPath_def Return_def Let_def split: option.split)

text \<open>Claim C10 at one input for each NULL argument.\<close>

theorem lookup_null_argument_fault_witness:
  "VFSFSAL_lookup ex_env (Some ex_dir) (Some \<lparr>name = ''a''\<rparr>) (Some ex_ctx) None (Some ex_attrs)
     = \<lparr>res_status = \<lparr>major = ERR_FSAL_FAULT, minor = 0\<rparr>, res_handle = None,
        res_attributes = Some ex_attrs, res_trace = []\<rparr>
   \<and> VFSFSAL_lookup ex_env None None None (Some ex_blank) None
     = \<lparr>res_status = \<lparr>major = ERR_FSAL_FAULT, minor = 0\<rparr>, res_handle = Some ex_blank,
        res_attributes = None, res_trace = []\<rparr>
   \<and> VFSFSAL_lookupPath ex_env None (Some ex_ctx) (Some ex_blank) None
     = \<lparr>res_status = \<lparr>major = ERR_FSAL_FAULT, minor = 0\<rparr>, res_handle = Some ex_blank,
        res_attributes = None, res_trace = []\<rparr>
   \<and> VFSFSAL_lookupPath ex_env (Some \<lparr>path = ''a''\<rparr>) None (Some ex_blank) None
     = \<lparr>res_status = \<lparr>major = ERR_FSAL_FAULT, minor = 0\<rparr>, res_handle = Some ex_blank,
        res_attributes = None, res_trace = []\<rparr>
   \<and> VFSFSAL_lookupPath ex_env (Some \<lparr>path = ''/a''\<rparr>) (Some ex_ctx) None (Some ex_attrs)
     = \<lparr>res_status = \<lparr>major = ERR_FSAL_FAULT, minor = 0\<rparr>, res_handle = None,
        res_attributes = Some ex_attrs, res_trace = []\<rparr>"
  using lookup_null_argument_fault [of None "Some ex_ctx" ex_env "Some ex_dir"
      "Some \<lparr>name = ''a''\<rparr>" "Some ex_attrs" None None]
    lookup_null_argument_fault [of "Some ex_blank" None ex_env None None None "Some ex_blank"
      "Some \<lparr>path = ''a''\<rparr>"]
    lookup_null_argument_fault [of "Some ex_blank" "Some ex_ctx" ex_env None None None
      "Some ex_blank" None]
    lookup_null_argument_fault [of "Some ex_blank" "Some ex_ctx" ex_env None None "Some ex_attrs"
      None "Some \<lparr>path = ''/a''\<rparr>"]
  by simp

subsection \<open>The root\<close>

text \<open>
  Claim C6. With neither parent handle nor name (and valid output and context pointers),
  \<^verbatim>\<open>VFSFSAL_lookup\<close> returns the no-error status for every context and every behaviour of
  the collaborators, so also when \<^verbatim>\<open>VFSFSAL_getattrs\<close> fails; the output handle is the root
  handle of the export context; no access check is made; and the only call made is
  \<^verbatim>\<open>VFSFSAL_getattrs\<close>, made exactly when attributes are asked for.
\<close>

theorem lookup_root_always_succeeds:
  "res_status (VFSFSAL_lookup env None None (Some ctx) (Some oh) p_object_attributes)
     = \<lparr>major = ERR_FSAL_NO_ERROR, minor = 0\<rparr>
   \<and> res_handle (VFSFSAL_lookup env None None (Some ctx) (Some oh) p_object_attributes)
     = Some (oh\<lparr>data_vfs_handle := root_handle (export_context ctx)\<rparr>)
   \<and> Ev_testAccess \<notin> set (res_trace
         (VFSFSAL_lookup env None None (Some ctx) (Some oh) p_object_attributes))
   \<and> res_trace (VFSFSAL_lookup env None None (Some ctx) (Some oh) p_object_attributes)
     = (case p_object_attributes of
          None \<Rightarrow> []
        | Some a \<Rightarrow> [Ev_getattrs (oh\<lparr>data_vfs_handle := root_handle (export_context ctx)\<rparr>)])"
  by (simp add: lookup_defs split: option.split prod.split)

text \<open>
  Claim C6 in the concrete world, where the attribute fetch fails: with and without a
  request for attributes.
\<close>

theorem lookup_root_always_succeeds_witness:
  "res_status (VFSFSAL_lookup ex_env None None (Some ex_ctx) (Some ex_blank) (Some ex_attrs))
     = \<lparr>major = ERR_FSAL_NO_ERROR, minor = 0\<rparr>
   \<and> res_handle (VFSFSAL_lookup ex_env None None (Some ex_ctx) (Some ex_blank) (Some ex_attrs))
     = Some \<lparr>data_vfs_handle = ex_root_vh\<rparr>
   \<and> FSAL_IS_ERROR (fst (VFSFSAL_getattrs ex_env \<lparr>data_vfs_handle = ex_root_vh\<rparr> ex_ctx ex_attrs))
   \<and> res_trace (VFSFSAL_lookup ex_env None None (Some ex_ctx) (Some ex_blank) (Some ex_attrs))
     = [Ev_getattrs \<lparr>data_vfs_handle = ex_root_vh\<rparr>]
   \<and> res_trace (VFSFSAL_lookup ex_env None None (Some ex_ctx) (Some ex_blank) None) = []"
  using lookup_root_always_succeeds [of ex_env ex_ctx ex_blank "Some ex_attrs"]
    lookup_root_always_succeeds [of ex_env ex_ctx ex_blank None]
  by (simp add: ex_defs Return_def FSAL_IS_ERROR_def)

subsection \<open>The kind of the parent\<close>

text \<open>
  Claim C5. When the parent opens and \<^verbatim>\<open>fstat\<close> succeeds, the kind \<open>k\<close> that
  \<^verbatim>\<open>posix2fsal_type\<close> gives for its mode decides: for a directory the next call after the
  metadata fetch is the access check; a junction gives \<^verbatim>\<open>ERR_FSAL_XDEV\<close>; a file, a link
  and an extended-attribute object give \<^verbatim>\<open>ERR_FSAL_NOTDIR\<close>; any other kind gives
  \<^verbatim>\<open>ERR_FSAL_SERVERFAULT\<close>; and but for a directory no access check is made.
\<close>

theorem lookup_parent_kind_decides:
  assumes "fsal_internal_handle2fd env ctx parent = (st, parentfd)"
    and "\<not> FSAL_IS_ERROR st"
    and "fstat env parentfd = (0, errno, buffstat)"
    and "r = VFSFSAL_lookup env (Some parent) (Some filename) (Some ctx) (Some oh)
               p_object_attributes"
    and "k = posix2fsal_type env (st_mode buffstat)"
  shows "(k = FSAL_TYPE_DIR \<longrightarrow>
            take 7 (res_trace r) =
              [TakeTokenFSCall, Ev_handle2fd parent, ReleaseTokenFSCall,
               TakeTokenFSCall, Ev_fstat parentfd, ReleaseTokenFSCall, Ev_testAccess])
       \<and> (k = FSAL_TYPE_JUNCTION \<longrightarrow>
            res_status r = \<lparr>major = ERR_FSAL_XDEV, minor = 0\<rparr>
            \<and> Ev_testAccess \<notin> set (res_trace r))
       \<and> (k = FSAL_TYPE_FILE \<or> k = FSAL_TYPE_LNK \<or> k = FSAL_TYPE_XATTR \<longrightarrow>
            res_status r = \<lparr>major = ERR_FSAL_NOTDIR, minor = 0\<rparr>
            \<and> Ev_testAccess \<notin> set (res_trace r))
       \<and> ((\<exists>n. k = FSAL_TYPE_OTHER n) \<longrightarrow>
            res_status r = \<lparr>major = ERR_FSAL_SERVERFAULT, minor = 0\<rparr>
            \<and> Ev_testAccess \<notin> set (res_trace r))"
proof -
  have r: "r = (case k of
              FSAL_TYPE_DIR \<Rightarrow>
                lookup_name env parentfd buffstat filename ctx oh p_object_attributes
                  [TakeTokenFSCall, Ev_handle2fd parent, ReleaseTokenFSCall,
                   TakeTokenFSCall, Ev_fstat parentfd, ReleaseTokenFSCall]
            | FSAL_TYPE_JUNCTION \<Rightarrow> lookup_parent env parent filename ctx oh p_object_attributes
            | FSAL_TYPE_FILE \<Rightarrow> lookup_parent env parent filename ctx oh p_object_attributes
            | FSAL_TYPE_LNK \<Rightarrow> lookup_parent env parent filename ctx oh p_object_attributes
            | FSAL_TYPE_XATTR \<Rightarrow> lookup_parent env parent filename ctx oh p_object_attributes
            | FSAL_TYPE_OTHER n \<Rightarrow> lookup_parent env parent filename ctx oh p_object_attributes)"
    using assms
    by (simp add: VFSFSAL_lookup_def lookup_parent_def Let_def split: fsal_nodetype.split)
  have kind: "posix2fsal_type env (st_mode buffstat) = k"
    using assms(5) by simp
  show ?thesis
  proof (cases k)
    case FSAL_TYPE_DIR
    then show ?thesis
      using r by (simp add: lookup_name_def Let_def split: prod.split)
  next
    case FSAL_TYPE_JUNCTION
    then show ?thesis
      using r assms(1-3) kind by (simp add: lookup_parent_def Let_def Return_def)
  next
    case FSAL_TYPE_FILE
    then show ?thesis
      using r assms(1-3) kind by (simp add: lookup_parent_def Let_def Return_def)
  next
    case FSAL_TYPE_LNK
    then show ?thesis
      using r assms(1-3) kind by (simp add: lookup_parent_def Let_def Return_def)
  next
    case FSAL_TYPE_XATTR
    then show ?thesis
      using r assms(1-3) kind by (simp add: lookup_parent_def Let_def Return_def)
  next
    case (FSAL_TYPE_OTHER n)
    then show ?thesis
      using r assms(1-3) kind by (simp add: lookup_parent_def Let_def Return_def)
  qed
qed

text \<open>Claim C5 at each of the six kinds.\<close>

theorem lookup_parent_kind_decides_witness:
  "take 7 (res_trace (VFSFSAL_lookup (ex_env_kind FSAL_TYPE_DIR) (Some ex_dir)
        (Some \<lparr>name = ''a''\<rparr>) (Some ex_ctx) (Some ex_blank) None))
     = [TakeTokenFSCall, Ev_handle2fd ex_dir, ReleaseTokenFSCall,
        TakeTokenFSCall, Ev_fstat 3, ReleaseTokenFSCall, Ev_testAccess]
   \<and> res_status (VFSFSAL_lookup (ex_env_kind FSAL_TYPE_JUNCTION) (Some ex_dir)
        (Some \<lparr>name = ''a''\<rparr>) (Some ex_ctx) (Some ex_blank) None)
     = \<lparr>major = ERR_FSAL_XDEV, minor = 0\<rparr>
   \<and> res_status (VFSFSAL_lookup (ex_env_kind FSAL_TYPE_FILE) (Some ex_dir)
        (Some \<lparr>name = ''a''\<rparr>) (Some ex_ctx) (Some ex_blank) None)
     = \<lparr>major = ERR_FSAL_NOTDIR, minor = 0\<rparr>
   \<and> res_status (VFSFSAL_lookup (ex_env_kind FSAL_TYPE_LNK) (Some ex_dir)
        (Some \<lparr>name = ''a''\<rparr>) (Some ex_ctx) (Some ex_blank) None)
     = \<lparr>major = ERR_FSAL_NOTDIR, minor = 0\<rparr>
   \<and> res_status (VFSFSAL_lookup (ex_env_kind FSAL_TYPE_XATTR) (Some ex_dir)
        (Some \<lparr>name = ''a''\<rparr>) (Some ex_ctx) (Some ex_blank) None)
     = \<lparr>major = ERR_FSAL_NOTDIR, minor = 0\<rparr>
   \<and> res_status (VFSFSAL_lookup (ex_env_kind (FSAL_TYPE_OTHER 0)) (Some ex_dir)
        (Some \<lparr>name = ''a''\<rparr>) (Some ex_ctx) (Some ex_blank) None)
     = \<lparr>major = ERR_FSAL_SERVERFAULT, minor = 0\<rparr>"
proof -
  have w: "fsal_internal_handle2fd (ex_env_kind k) ex_ctx ex_dir
             = (\<lparr>major = ERR_FSAL_NO_ERROR, minor = 0\<rparr>, 3)
           \<and> \<not> FSAL_IS_ERROR \<lparr>major = ERR_FSAL_NO_ERROR, minor = 0\<rparr>
           \<and> fstat (ex_env_kind k) 3 = (0, 0, \<lparr>st_mode = 0x41ED, st_ino = 42\<rparr>)
           \<and> k = posix2fsal_type (ex_env_kind k) (st_mode \<lparr>st_mode = 0x41ED, st_ino = 42\<rparr>)" for k
    by (simp add: ex_env_kind_def ex_env_def Return_def FSAL_IS_ERROR_def)
  note t = lookup_parent_kind_decides [OF conjunct1 [OF w] conjunct1 [OF conjunct2 [OF w]]
      conjunct1 [OF conjunct2 [OF conjunct2 [OF w]]] refl
      conjunct2 [OF conjunct2 [OF conjunct2 [OF w]]]]
  show ?thesis
    using t [of FSAL_TYPE_DIR "\<lparr>name = ''a''\<rparr>" ex_blank None]
      t [of FSAL_TYPE_JUNCTION "\<lparr>name = ''a''\<rparr>" ex_blank None]
      t [of FSAL_TYPE_FILE "\<lparr>name = ''a''\<rparr>" ex_blank None]
      t [of FSAL_TYPE_LNK "\<lparr>name = ''a''\<rparr>" ex_blank None]
      t [of FSAL_TYPE_XATTR "\<lparr>name = ''a''\<rparr>" ex_blank None]
      t [of "FSAL_TYPE_OTHER 0" "\<lparr>name = ''a''\<rparr>" ex_blank None]
    by simp
qed

subsection \<open>Attributes that cannot be fetched\<close>

text \<open>
  Claim C8. When the handle has been obtained (the root; a name found in a directory
  that passed the access check; a path translated by \<^verbatim>\<open>fsal_internal_Path2Handle\<close>) and
  \<^verbatim>\<open>VFSFSAL_getattrs\<close> then fails, \<^verbatim>\<open>VFSFSAL_lookup\<close> and \<^verbatim>\<open>VFSFSAL_lookupPath\<close> return the
  no-error status with that handle, and the mask of the attribute list is exactly
  \<^verbatim>\<open>FSAL_ATTR_RDATTR_ERR\<close>.
\<close>

theorem attribute_failure_degrades:
  "(FSAL_IS_ERROR (fst (VFSFSAL_getattrs env
        (oh\<lparr>data_vfs_handle := root_handle (export_context ctx)\<rparr>) ctx a)) \<longrightarrow>
      VFSFSAL_lookup env None None (Some ctx) (Some oh) (Some a) =
        \<lparr>res_status = \<lparr>major = ERR_FSAL_NO_ERROR, minor = 0\<rparr>,
         res_handle = Some (oh\<lparr>data_vfs_handle := root_handle (export_context ctx)\<rparr>),
         res_attributes = Some ((snd (VFSFSAL_getattrs env
             (oh\<lparr>data_vfs_handle := root_handle (export_context ctx)\<rparr>) ctx a))
             \<lparr>asked_attributes := FSAL_ATTR_RDATTR_ERR env\<rparr>),
         res_trace = [Ev_getattrs (oh\<lparr>data_vfs_handle := root_handle (export_context ctx)\<rparr>)]\<rparr>)
   \<and> (fsal_internal_handle2fd env ctx parent = (st, parentfd) \<and> \<not> FSAL_IS_ERROR st
      \<and> fstat env parentfd = (0, errno, buffstat)
      \<and> posix2fsal_type env (st_mode buffstat) = FSAL_TYPE_DIR
      \<and> \<not> FSAL_IS_ERROR (fsal_internal_testAccess env ctx buffstat)
      \<and> vfs_name_by_handle_at env parentfd (name filename)
            ((data_vfs_handle oh)\<lparr>handle_bytes := VFS_HANDLE_LEN env\<rparr>) = (0, errno', vh)
      \<and> FSAL_IS_ERROR (fst (VFSFSAL_getattrs env (oh\<lparr>data_vfs_handle := vh\<rparr>) ctx a)) \<longrightarrow>
      res_status (VFSFSAL_lookup env (Some parent) (Some filename) (Some ctx) (Some oh) (Some a))
        = \<lparr>major = ERR_FSAL_NO_ERROR, minor = 0\<rparr>
      \<and> res_handle (VFSFSAL_lookup env (Some parent) (Some filename) (Some ctx) (Some oh) (Some a))
        = Some (oh\<lparr>data_vfs_handle := vh\<rparr>)
      \<and> res_attributes (VFSFSAL_lookup env (Some parent) (Some filename) (Some ctx) (Some oh)
            (Some a))
        = Some ((snd (VFSFSAL_getattrs env (oh\<lparr>data_vfs_handle := vh\<rparr>) ctx a))
             \<lparr>asked_attributes := FSAL_ATTR_RDATTR_ERR env\<rparr>))
   \<and> (path pth = CHR ''/'' # cs
      \<and> fsal_internal_Path2Handle env ctx pth oh = (st', oh') \<and> \<not> FSAL_IS_ERROR st'
      \<and> FSAL_IS_ERROR (fst (VFSFSAL_getattrs env oh' ctx a)) \<longrightarrow>
      VFSFSAL_lookupPath env (Some pth) (Some ctx) (Some oh) (Some a) =
        \<lparr>res_status = \<lparr>major = ERR_FSAL_NO_ERROR, minor = 0\<rparr>,
         res_handle = Some oh',
         res_attributes = Some ((snd (VFSFSAL_getattrs env oh' ctx a))
             \<lparr>asked_attributes := FSAL_ATTR_RDATTR_ERR env\<rparr>),
         res_trace = [Ev_Path2Handle (path pth), Ev_getattrs oh']\<rparr>)"
proof (intro conjI impI)
  assume "FSAL_IS_ERROR (fst (VFSFSAL_getattrs env
        (oh\<lparr>data_vfs_handle := root_handle (export_context ctx)\<rparr>) ctx a))"
  then show "VFSFSAL_lookup env None None (Some ctx) (Some oh) (Some a) =
        \<lparr>res_status = \<lparr>major = ERR_FSAL_NO_ERROR, minor = 0\<rparr>,
         res_handle = Some (oh\<lparr>data_vfs_handle := root_handle (export_context ctx)\<rparr>),
         res_attributes = Some ((snd (VFSFSAL_getattrs env
             (oh\<lparr>data_vfs_handle := root_handle (export_context ctx)\<rparr>) ctx a))
             \<lparr>asked_attributes := FSAL_ATTR_RDATTR_ERR env\<rparr>),
         res_trace = [Ev_getattrs (oh\<lparr>data_vfs_handle := root_handle (export_context ctx)\<rparr>)]\<rparr>"
    by (auto simp add: lookup_defs split: prod.split)
next
  assume h: "fsal_internal_handle2fd env ctx parent = (st, parentfd) \<and> \<not> FSAL_IS_ERROR st
      \<and> fstat env parentfd = (0, errno, buffstat)
      \<and> posix2fsal_type env (st_mode buffstat) = FSAL_TYPE_DIR
      \<and> \<not> FSAL_IS_ERROR (fsal_internal_testAccess env ctx buffstat)
      \<and> vfs_name_by_handle_at env parentfd (name filename)
            ((data_vfs_handle oh)\<lparr>handle_bytes := VFS_HANDLE_LEN env\<rparr>) = (0, errno', vh)
      \<and> FSAL_IS_ERROR (fst (VFSFSAL_getattrs env (oh\<lparr>data_vfs_handle := vh\<rparr>) ctx a))"
  then have r: "VFSFSAL_lookup env (Some parent) (Some filename) (Some ctx) (Some oh) (Some a)
      = \<lparr>res_status = \<lparr>major = ERR_FSAL_NO_ERROR, minor = 0\<rparr>,
         res_handle = Some (oh\<lparr>data_vfs_handle := vh\<rparr>),
         res_attributes = Some ((snd (VFSFSAL_getattrs env (oh\<lparr>data_vfs_handle := vh\<rparr>) ctx a))
             \<lparr>asked_attributes := FSAL_ATTR_RDATTR_ERR env\<rparr>),
         res_trace =
           [TakeTokenFSCall, Ev_handle2fd parent, ReleaseTokenFSCall,
            TakeTokenFSCall, Ev_fstat parentfd, ReleaseTokenFSCall, Ev_testAccess,
            TakeTokenFSCall, Ev_name_by_handle_at parentfd (name filename),
            ReleaseTokenFSCall, Ev_close parentfd, Ev_getattrs (oh\<lparr>data_vfs_handle := vh\<rparr>)]\<rparr>"
    by (auto simp add: lookup_defs split: prod.split)
  show "res_status (VFSFSAL_lookup env (Some parent) (Some filename) (Some ctx) (Some oh) (Some a))
        = \<lparr>major = ERR_FSAL_NO_ERROR, minor = 0\<rparr>"
    by (simp add: r)
  show "res_handle (VFSFSAL_lookup env (Some parent) (Some filename) (Some ctx) (Some oh) (Some a))
        = Some (oh\<lparr>data_vfs_handle := vh\<rparr>)"
    by (simp add: r)
  show "res_attributes (VFSFSAL_lookup env (Some parent) (Some filename) (Some ctx) (Some oh)
            (Some a))
        = Some ((snd (VFSFSAL_getattrs env (oh\<lparr>data_vfs_handle := vh\<rparr>) ctx a))
             \<lparr>asked_attributes := FSAL_ATTR_RDATTR_ERR env\<rparr>)"
    by (simp add: r)
next
  assume "path pth = CHR ''/'' # cs
      \<and> fsal_internal_Path2Handle env ctx pth oh = (st', oh') \<and> \<not> FSAL_IS_ERROR st'
      \<and> FSAL_IS_ERROR (fst (VFSFSAL_getattrs env oh' ctx a))"
  then show "VFSFSAL_lookupPath env (Some pth) (Some ctx) (Some oh) (Some a) =
        \<lparr>res_status = \<lparr>major = ERR_FSAL_NO_ERROR, minor = 0\<rparr>,
         res_handle = Some oh',
         res_attributes = Some ((snd (VFSFSAL_getattrs env oh' ctx a))
             \<lparr>asked_attributes := FSAL_ATTR_RDATTR_ERR env\<rparr>),
         res_trace = [Ev_Path2Handle (path pth), Ev_getattrs oh']\<rparr>"
    by (auto simp add: VFSFSAL_lookupPath_def get_object_attributes_def Return_def FSAL_IS_ERROR_def
        FSAL_SET_MASK_def FSAL_CLEAR_MASK_def Let_def split: prod.split)
qed

text \<open>Claim C8 in the concrete world, where the attribute fetch fails, on the three paths.\<close>

theorem attribute_failure_degrades_witness:
  "VFSFSAL_lookup ex_env None None (Some ex_ctx) (Some ex_blank) (Some ex_attrs) =
     \<lparr>res_status = \<lparr>major = ERR_FSAL_NO_ERROR, minor = 0\<rparr>,
      res_handle = Some \<lparr>data_vfs_handle = ex_root_vh\<rparr>,
      res_attributes = Some \<lparr>asked_attributes = 0x80000000, attr_values = []\<rparr>,
      res_trace = [Ev_getattrs \<lparr>data_vfs_handle = ex_root_vh\<rparr>]\<rparr>
   \<and> res_status (VFSFSAL_lookup ex_env (Some ex_dir) (Some \<lparr>name = ''a''\<rparr>) (Some ex_ctx)
        (Some ex_blank) (Some ex_attrs)) = \<lparr>major = ERR_FSAL_NO_ERROR, minor = 0\<rparr>
   \<and> res_handle (VFSFSAL_lookup ex_env (Some ex_dir) (Some \<lparr>name = ''a''\<rparr>) (Some ex_ctx)
        (Some ex_blank) (Some ex_attrs)) = Some \<lparr>data_vfs_handle = ex_child_vh\<rparr>
   \<and> res_attributes (VFSFSAL_lookup ex_env (Some ex_dir) (Some \<lparr>name = ''a''\<rparr>) (Some ex_ctx)
        (Some ex_blank) (Some ex_attrs))
        = Some \<lparr>asked_attributes = 0x80000000, attr_values = []\<rparr>
   \<and> VFSFSAL_lookupPath ex_env (Some \<lparr>path = ''/a''\<rparr>) (Some ex_ctx) (Some ex_blank)
        (Some ex_attrs) =
     \<lparr>res_status = \<lparr>major = ERR_FSAL_NO_ERROR, minor = 0\<rparr>,
      res_handle = Some \<lparr>data_vfs_handle = ex_child_vh\<rparr>,
      res_attributes = Some \<lparr>asked_attributes = 0x80000000, attr_values = []\<rparr>,
      res_trace = [Ev_Path2Handle ''/a'', Ev_getattrs \<lparr>data_vfs_handle = ex_child_vh\<rparr>]\<rparr>"
  using attribute_failure_degrades [where env = ex_env and oh = ex_blank and ctx = ex_ctx
      and a = ex_attrs and parent = ex_dir
      and st = "\<lparr>major = ERR_FSAL_NO_ERROR, minor = 0\<rparr>" and parentfd = 3 and errno = 0
      and buffstat = "\<lparr>st_mode = 0x41ED, st_ino = 42\<rparr>"
      and filename = "\<lparr>name = ''a''\<rparr>" and errno' = 0 and vh = ex_child_vh
      and pth = "\<lparr>path = ''/a''\<rparr>" and cs = "''a''"
      and st' = "\<lparr>major = ERR_FSAL_NO_ERROR, minor = 0\<rparr>"
      and oh' = "\<lparr>data_vfs_handle = ex_child_vh\<rparr>"]
  by (simp add: ex_env_def ex_ctx_def ex_blank_def ex_attrs_def ex_posix2fsal_type_def
      Return_def FSAL_IS_ERROR_def)

subsection \<open>A failed metadata fetch\<close>

text \<open>
  After a failed \<^verbatim>\<open>fstat\<close> the status depends on the unassigned \<^verbatim>\<open>errsv\<close> alone, not on
  \<^verbatim>\<open>errno\<close>.
\<close>

lemma lookup_failed_fstat_status:
  assumes "fsal_internal_handle2fd env ctx parent = (st, parentfd)"
    and "\<not> FSAL_IS_ERROR st"
    and "fstat env parentfd = (rc, errno, buffstat)"
    and "rc \<noteq> 0"
  shows "res_status (VFSFSAL_lookup env (Some parent) (Some filename) (Some ctx) (Some oh)
           p_object_attributes)
         = (if errsv_indeterminate env = ENOENT
            then \<lparr>major = ERR_FSAL_STALE, minor = errsv_indeterminate env\<rparr>
            else \<lparr>major = posix2fsal_error env (errsv_indeterminate env),
                  minor = errsv_indeterminate env\<rparr>)"
  using assms by (simp add: VFSFSAL_lookup_def lookup_parent_def Return_def Let_def)

text \<open>
  Claim C1, which the code does not meet. The parent opens, \<^verbatim>\<open>fstat\<close> fails with
  \<^verbatim>\<open>ENOENT\<close>, and \<^verbatim>\<open>errsv\<close> holds 5: the status returned is what the error conversion makes
  of 5, with minor code 5, whatever the conversion \<open>f\<close> is; it is \<^verbatim>\<open>ERR_FSAL_STALE\<close> only if
  \<open>f\<close> maps 5 there. With the conversion of the concrete world it is \<^verbatim>\<open>ERR_FSAL_IO\<close>.
\<close>

theorem lookup_fstat_enoent_returns_errsv:
  "fsal_internal_handle2fd (ex_env_fstat_enoent f) ex_ctx ex_dir
     = (\<lparr>major = ERR_FSAL_NO_ERROR, minor = 0\<rparr>, 3)
   \<and> fstat (ex_env_fstat_enoent f) 3 = (- 1, ENOENT, \<lparr>st_mode = 0, st_ino = 0\<rparr>)
   \<and> res_status (VFSFSAL_lookup (ex_env_fstat_enoent f) (Some ex_dir) (Some \<lparr>name = ''a''\<rparr>)
        (Some ex_ctx) (Some ex_blank) None) = \<lparr>major = f 5, minor = 5\<rparr>
   \<and> res_status (VFSFSAL_lookup (ex_env_fstat_enoent ex_posix2fsal_error) (Some ex_dir)
        (Some \<lparr>name = ''a''\<rparr>) (Some ex_ctx) (Some ex_blank) None)
     = \<lparr>major = ERR_FSAL_IO, minor = 5\<rparr>"
  by (simp add: lookup_defs ex_defs)

subsection \<open>Closing the parent\<close>

text \<open>
  When the access check fails the function returns the status of the check; the trace
  ends with the check, and holds no close.
\<close>

lemma lookup_access_denied_no_close:
  assumes "fsal_internal_handle2fd env ctx parent = (st, parentfd)"
    and "\<not> FSAL_IS_ERROR st"
    and "fstat env parentfd = (0, errno, buffstat)"
    and "posix2fsal_type env (st_mode buffstat) = FSAL_TYPE_DIR"
    and "FSAL_IS_ERROR (fsal_internal_testAccess env ctx buffstat)"
  shows "VFSFSAL_lookup env (Some parent) (Some filename) (Some ctx) (Some oh) p_object_attributes
         = \<lparr>res_status = fsal_internal_testAccess env ctx buffstat, res_handle = Some oh,
            res_attributes = p_object_attributes,
            res_trace = [TakeTokenFSCall, Ev_handle2fd parent, ReleaseTokenFSCall,
                         TakeTokenFSCall, Ev_fstat parentfd, ReleaseTokenFSCall, Ev_testAccess]\<rparr>"
  using assms by (simp add: VFSFSAL_lookup_def lookup_parent_def lookup_name_def Let_def)

text \<open>On every other path that has opened the parent, it is closed exactly once.\<close>

lemma lookup_closes_parent_once_otherwise:
  assumes "fsal_internal_handle2fd env ctx parent = (st, parentfd)"
    and "\<not> FSAL_IS_ERROR st"
    and "fstat env parentfd = (rc, errno, buffstat)"
    and "\<not> (rc = 0 \<and> posix2fsal_type env (st_mode buffstat) = FSAL_TYPE_DIR
            \<and> FSAL_IS_ERROR (fsal_internal_testAccess env ctx buffstat))"
  shows "closes parentfd (res_trace (VFSFSAL_lookup env (Some parent) (Some filename) (Some ctx)
           (Some oh) p_object_attributes)) = 1"
  using assms
  by (auto simp add: VFSFSAL_lookup_def lookup_parent_def lookup_name_def
      get_object_attributes_def closes_def Let_def
      split: prod.split fsal_nodetype.split option.split)

text \<open>
  Claim C2, which the code does not meet. In the concrete world with an access check
  that denies, the parent opens as descriptor 3, the call returns \<^verbatim>\<open>ERR_FSAL_ACCESS\<close>, and
  descriptor 3 is closed zero times.
\<close>

theorem lookup_access_denied_leaves_parent_open:
  "fsal_internal_handle2fd ex_env_denied ex_ctx ex_dir
     = (\<lparr>major = ERR_FSAL_NO_ERROR, minor = 0\<rparr>, 3)
   \<and> VFSFSAL_lookup ex_env_denied (Some ex_dir) (Some \<lparr>name = ''a''\<rparr>) (Some ex_ctx)
        (Some ex_blank) None
     = \<lparr>res_status = \<lparr>major = ERR_FSAL_ACCESS, minor = 0\<rparr>, res_handle = Some ex_blank,
        res_attributes = None,
        res_trace = [TakeTokenFSCall, Ev_handle2fd ex_dir, ReleaseTokenFSCall,
                     TakeTokenFSCall, Ev_fstat 3, ReleaseTokenFSCall, Ev_testAccess]\<rparr>
   \<and> closes 3 (res_trace (VFSFSAL_lookup ex_env_denied (Some ex_dir) (Some \<lparr>name = ''a''\<rparr>)
        (Some ex_ctx) (Some ex_blank) None)) = 0"
  by (simp add: lookup_defs ex_defs closes_def)

subsection \<open>The output handle after an error\<close>

text \<open>
  Claim C3 as stated fails: when the name is not found the call returns an error, and
  the field \<^verbatim>\<open>handle_bytes\<close> of the output handle, 0 before the call, is 10
  (\<^verbatim>\<open>VFS_HANDLE_LEN\<close>) after it.
\<close>

theorem lookup_error_writes_handle_counterexample:
  "FSAL_IS_ERROR (res_status (VFSFSAL_lookup ex_env (Some ex_dir) (Some \<lparr>name = ''missing''\<rparr>)
       (Some ex_ctx) (Some ex_blank) None))
   \<and> res_handle (VFSFSAL_lookup ex_env (Some ex_dir) (Some \<lparr>name = ''missing''\<rparr>)
       (Some ex_ctx) (Some ex_blank) None)
     = Some \<lparr>data_vfs_handle = \<lparr>handle_bytes = 10, handle_type = 0, f_handle = []\<rparr>\<rparr>
   \<and> res_handle (VFSFSAL_lookup ex_env (Some ex_dir) (Some \<lparr>name = ''missing''\<rparr>)
       (Some ex_ctx) (Some ex_blank) None) \<noteq> Some ex_blank"
  by (simp add: lookup_defs ex_defs)

lemma name_lookup_called_simps:
  "name_lookup_called [] = False"
  "name_lookup_called (e # tr) = (is_name_lookup e \<or> name_lookup_called tr)"
  "name_lookup_called (tr @ tr') = (name_lookup_called tr \<or> name_lookup_called tr')"
  by (simp_all add: name_lookup_called_def)

lemma lookup_name_error_handle:
  assumes "FSAL_IS_ERROR (res_status (lookup_name env parentfd buffstat filename ctx oh
             p_object_attributes tr))"
    and "\<not> name_lookup_called tr"
  shows "(\<not> name_lookup_called (res_trace (lookup_name env parentfd buffstat filename ctx oh
              p_object_attributes tr)) \<longrightarrow>
            res_handle (lookup_name env parentfd buffstat filename ctx oh p_object_attributes tr)
              = Some oh)
       \<and> (name_lookup_called (res_trace (lookup_name env parentfd buffstat filename ctx oh
              p_object_attributes tr)) \<longrightarrow>
            res_handle (lookup_name env parentfd buffstat filename ctx oh p_object_attributes tr)
              = Some (oh\<lparr>data_vfs_handle :=
                  snd (snd (vfs_name_by_handle_at env parentfd (name filename)
                    ((data_vfs_handle oh)\<lparr>handle_bytes := VFS_HANDLE_LEN env\<rparr>)))\<rparr>))"
proof (cases "FSAL_IS_ERROR (fsal_internal_testAccess env ctx buffstat)")
  case True
  with assms(2) show ?thesis
    by (simp add: lookup_name_def Let_def name_lookup_called_simps)
next
  case False
  obtain rc errno vh where p: "vfs_name_by_handle_at env parentfd (name filename)
      ((data_vfs_handle oh)\<lparr>handle_bytes := VFS_HANDLE_LEN env\<rparr>) = (rc, errno, vh)"
    by (cases "vfs_name_by_handle_at env parentfd (name filename)
      ((data_vfs_handle oh)\<lparr>handle_bytes := VFS_HANDLE_LEN env\<rparr>)") auto
  show ?thesis
  proof (cases "rc = 0")
    case True
    with False p assms(1) show ?thesis
      by (simp add: lookup_name_def Let_def Return_def FSAL_IS_ERROR_def split: prod.splits)
  next
    case rc: False
    with False p show ?thesis
      by (simp add: lookup_name_def Let_def name_lookup_called_simps)
  qed
qed

lemma lookup_parent_error_handle:
  assumes "FSAL_IS_ERROR (res_status (lookup_parent env parent filename ctx oh p_object_attributes))"
  shows "(\<not> name_lookup_called (res_trace (lookup_parent env parent filename ctx oh
              p_object_attributes)) \<longrightarrow>
            res_handle (lookup_parent env parent filename ctx oh p_object_attributes) = Some oh)
       \<and> (name_lookup_called (res_trace (lookup_parent env parent filename ctx oh
              p_object_attributes)) \<longrightarrow>
            res_handle (lookup_parent env parent filename ctx oh p_object_attributes)
              = Some (oh\<lparr>data_vfs_handle :=
                  snd (snd (vfs_name_by_handle_at env
                    (snd (fsal_internal_handle2fd env ctx parent)) (name filename)
                    ((data_vfs_handle oh)\<lparr>handle_bytes := VFS_HANDLE_LEN env\<rparr>)))\<rparr>))"
proof -
  obtain st parentfd where h: "fsal_internal_handle2fd env ctx parent = (st, parentfd)"
    by (cases "fsal_internal_handle2fd env ctx parent") auto
  obtain rc errno buffstat where f: "fstat env parentfd = (rc, errno, buffstat)"
    by (cases "fstat env parentfd") auto
  show ?thesis
  proof (cases "FSAL_IS_ERROR st \<or> rc \<noteq> 0")
    case True
    with h f show ?thesis
      by (auto simp add: lookup_parent_def Let_def name_lookup_called_simps)
  next
    case ok: False
    show ?thesis
    proof (cases "posix2fsal_type env (st_mode buffstat)")
      case FSAL_TYPE_DIR
      let ?tr = "[TakeTokenFSCall, Ev_handle2fd parent, ReleaseTokenFSCall,
                  TakeTokenFSCall, Ev_fstat parentfd, ReleaseTokenFSCall]"
      have eq: "lookup_parent env parent filename ctx oh p_object_attributes
                = lookup_name env parentfd buffstat filename ctx oh p_object_attributes ?tr"
        using ok h f FSAL_TYPE_DIR by (simp add: lookup_parent_def Let_def)
      have "\<not> name_lookup_called ?tr"
        by (simp add: name_lookup_called_simps)
      from lookup_name_error_handle [OF assms [unfolded eq] this] show ?thesis
        using h by (simp add: eq)
    qed (use ok h f in \<open>simp_all add: lookup_parent_def Let_def name_lookup_called_simps\<close>)
  qed
qed

text \<open>
  Claim C3, amended. When \<^verbatim>\<open>VFSFSAL_lookup\<close> returns an error without having called the
  name-lookup primitive, the output handle is unchanged. When it returns an error after
  calling the primitive, all four pointers were valid and the output handle holds what
  the primitive left of the buffer it was given, which was the caller's with
  \<^verbatim>\<open>handle_bytes\<close> set to \<^verbatim>\<open>VFS_HANDLE_LEN\<close>.
\<close>

theorem lookup_error_output_handle:
  assumes "r = VFSFSAL_lookup env p_parent_directory_handle p_filename p_context p_object_handle
                 p_object_attributes"
    and "FSAL_IS_ERROR (res_status r)"
  shows "(\<not> name_lookup_called (res_trace r) \<longrightarrow> res_handle r = p_object_handle)
       \<and> (name_lookup_called (res_trace r) \<longrightarrow>
            (\<exists>parent filename ctx oh.
               p_parent_directory_handle = Some parent \<and> p_filename = Some filename
               \<and> p_context = Some ctx \<and> p_object_handle = Some oh
               \<and> res_handle r = Some (oh\<lparr>data_vfs_handle :=
                   snd (snd (vfs_name_by_handle_at env
                     (snd (fsal_internal_handle2fd env ctx parent)) (name filename)
                     ((data_vfs_handle oh)\<lparr>handle_bytes := VFS_HANDLE_LEN env\<rparr>)))\<rparr>)))"
proof (cases "\<exists>parent filename ctx oh. p_parent_directory_handle = Some parent
    \<and> p_filename = Some filename \<and> p_context = Some ctx \<and> p_object_handle = Some oh")
  case True
  then obtain parent filename ctx oh where
    args: "p_parent_directory_handle = Some parent" "p_filename = Some filename"
      "p_context = Some ctx" "p_object_handle = Some oh"
    by blast
  have r: "r = lookup_parent env parent filename ctx oh p_object_attributes"
    using assms(1) args by (simp add: VFSFSAL_lookup_def)
  from lookup_parent_error_handle [OF assms(2) [unfolded r]] show ?thesis
    using args by (simp add: r)
next
  case False
  have "FSAL_IS_ERROR (res_status r) \<longrightarrow>
          \<not> name_lookup_called (res_trace r) \<and> res_handle r = p_object_handle"
    using False assms(1)
    by (cases p_parent_directory_handle; cases p_filename; cases p_context; cases p_object_handle)
       (simp_all add: VFSFSAL_lookup_def lookup_root_def Return_def FSAL_IS_ERROR_def Let_def
          name_lookup_called_simps split: prod.split)
  with assms(2) show ?thesis by simp
qed

text \<open>
  Claim C3, amended, on both sides: an access check that denies (no name lookup, handle
  unchanged) and a name that is not found.
\<close>

theorem lookup_error_output_handle_witness:
  "FSAL_IS_ERROR (res_status (VFSFSAL_lookup ex_env_denied (Some ex_dir) (Some \<lparr>name = ''a''\<rparr>)
       (Some ex_ctx) (Some ex_blank) None))
   \<and> \<not> name_lookup_called (res_trace (VFSFSAL_lookup ex_env_denied (Some ex_dir)
       (Some \<lparr>name = ''a''\<rparr>) (Some ex_ctx) (Some ex_blank) None))
   \<and> res_handle (VFSFSAL_lookup ex_env_denied (Some ex_dir) (Some \<lparr>name = ''a''\<rparr>)
       (Some ex_ctx) (Some ex_blank) None) = Some ex_blank
   \<and> FSAL_IS_ERROR (res_status (VFSFSAL_lookup ex_env (Some ex_dir) (Some \<lparr>name = ''missing''\<rparr>)
       (Some ex_ctx) (Some ex_blank) None))
   \<and> name_lookup_called (res_trace (VFSFSAL_lookup ex_env (Some ex_dir)
       (Some \<lparr>name = ''missing''\<rparr>) (Some ex_ctx) (Some ex_blank) None))
   \<and> res_handle (VFSFSAL_lookup ex_env (Some ex_dir) (Some \<lparr>name = ''missing''\<rparr>)
       (Some ex_ctx) (Some ex_blank) None)
     = Some \<lparr>data_vfs_handle = \<lparr>handle_bytes = 10, handle_type = 0, f_handle = []\<rparr>\<rparr>"
proof -
  have d: "FSAL_IS_ERROR (res_status (VFSFSAL_lookup ex_env_denied (Some ex_dir)
             (Some \<lparr>name = ''a''\<rparr>) (Some ex_ctx) (Some ex_blank) None))"
    by (simp add: lookup_defs ex_defs)
  have dn: "\<not> name_lookup_called (res_trace (VFSFSAL_lookup ex_env_denied (Some ex_dir)
       (Some \<lparr>name = ''a''\<rparr>) (Some ex_ctx) (Some ex_blank) None))"
    by (simp add: lookup_defs ex_defs name_lookup_called_def)
  have m: "FSAL_IS_ERROR (res_status (VFSFSAL_lookup ex_env (Some ex_dir)
             (Some \<lparr>name = ''missing''\<rparr>) (Some ex_ctx) (Some ex_blank) None))"
    by (simp add: lookup_defs ex_defs)
  have mn: "name_lookup_called (res_trace (VFSFSAL_lookup ex_env (Some ex_dir)
       (Some \<lparr>name = ''missing''\<rparr>) (Some ex_ctx) (Some ex_blank) None))"
    by (simp add: lookup_defs ex_defs name_lookup_called_def)
  have v: "snd (snd (vfs_name_by_handle_at ex_env (snd (fsal_internal_handle2fd ex_env ex_ctx ex_dir))
             ''missing'' ((data_vfs_handle ex_blank)\<lparr>handle_bytes := VFS_HANDLE_LEN ex_env\<rparr>)))
           = \<lparr>handle_bytes = 10, handle_type = 0, f_handle = []\<rparr>"
    by (simp add: ex_defs)
  from lookup_error_output_handle [OF refl d] dn lookup_error_output_handle [OF refl m] mn v d m
  show ?thesis
    by (simp add: ex_blank_def)
qed

subsection \<open>A name that does not exist\<close>

text \<open>
  Claim C7 as stated fails: the parent is a live directory and the name does not exist
  in it, but the access check denies, and the call returns \<^verbatim>\<open>ERR_FSAL_ACCESS\<close>, not
  \<^verbatim>\<open>ERR_FSAL_NOENT\<close>.
\<close>

theorem lookup_missing_name_access_denied_counterexample:
  "fsal_internal_handle2fd ex_env_denied ex_ctx ex_dir
     = (\<lparr>major = ERR_FSAL_NO_ERROR, minor = 0\<rparr>, 3)
   \<and> fstat ex_env_denied 3 = (0, 0, \<lparr>st_mode = 0x41ED, st_ino = 42\<rparr>)
   \<and> posix2fsal_type ex_env_denied 0x41ED = FSAL_TYPE_DIR
   \<and> vfs_name_by_handle_at ex_env_denied 3 ''missing''
        \<lparr>handle_bytes = 10, handle_type = 0, f_handle = []\<rparr>
     = (- 1, ENOENT, \<lparr>handle_bytes = 10, handle_type = 0, f_handle = []\<rparr>)
   \<and> posix2fsal_error ex_env_denied ENOENT = ERR_FSAL_NOENT
   \<and> res_status (VFSFSAL_lookup ex_env_denied (Some ex_dir) (Some \<lparr>name = ''missing''\<rparr>)
        (Some ex_ctx) (Some ex_blank) None) = \<lparr>major = ERR_FSAL_ACCESS, minor = 0\<rparr>
   \<and> major (res_status (VFSFSAL_lookup ex_env_denied (Some ex_dir) (Some \<lparr>name = ''missing''\<rparr>)
        (Some ex_ctx) (Some ex_blank) None)) \<noteq> ERR_FSAL_NOENT"
  by (simp add: lookup_defs ex_defs)

text \<open>
  Claim C7, amended. For a parent that opens, whose metadata is fetched, that is a
  directory and passes the access check, when the name-lookup primitive fails with
  \<^verbatim>\<open>ENOENT\<close> the call returns what the error conversion makes of \<^verbatim>\<open>ENOENT\<close>; with a
  conversion that maps \<^verbatim>\<open>ENOENT\<close> to \<^verbatim>\<open>ERR_FSAL_NOENT\<close> that is \<^verbatim>\<open>ERR_FSAL_NOENT\<close>, and
  not \<^verbatim>\<open>ERR_FSAL_STALE\<close>.
\<close>

theorem lookup_missing_name_not_found:
  assumes "fsal_internal_handle2fd env ctx parent = (st, parentfd)"
    and "\<not> FSAL_IS_ERROR st"
    and "fstat env parentfd = (0, errno, buffstat)"
    and "posix2fsal_type env (st_mode buffstat) = FSAL_TYPE_DIR"
    and "\<not> FSAL_IS_ERROR (fsal_internal_testAccess env ctx buffstat)"
    and "vfs_name_by_handle_at env parentfd (name filename)
           ((data_vfs_handle oh)\<lparr>handle_bytes := VFS_HANDLE_LEN env\<rparr>) = (rc, ENOENT, vh)"
    and "rc \<noteq> 0"
    and "posix2fsal_error env ENOENT = ERR_FSAL_NOENT"
  shows "res_status (VFSFSAL_lookup env (Some parent) (Some filename) (Some ctx) (Some oh)
           p_object_attributes) = \<lparr>major = ERR_FSAL_NOENT, minor = ENOENT\<rparr>
       \<and> major (res_status (VFSFSAL_lookup env (Some parent) (Some filename) (Some ctx) (Some oh)
           p_object_attributes)) \<noteq> ERR_FSAL_STALE"
  using assms
  by (simp add: VFSFSAL_lookup_def lookup_parent_def lookup_name_def Return_def Let_def)

text \<open>Claim C7, amended, in the concrete world, at a name that does not exist.\<close>

theorem lookup_missing_name_not_found_witness:
  "res_status (VFSFSAL_lookup ex_env (Some ex_dir) (Some \<lparr>name = ''missing''\<rparr>) (Some ex_ctx)
     (Some ex_blank) None) = \<lparr>major = ERR_FSAL_NOENT, minor = 2\<rparr>"
proof -
  have w: "fsal_internal_handle2fd ex_env ex_ctx ex_dir = (\<lparr>major = ERR_FSAL_NO_ERROR, minor = 0\<rparr>, 3)
      \<and> \<not> FSAL_IS_ERROR \<lparr>major = ERR_FSAL_NO_ERROR, minor = 0\<rparr>
      \<and> fstat ex_env 3 = (0, 0, \<lparr>st_mode = 0x41ED, st_ino = 42\<rparr>)
      \<and> posix2fsal_type ex_env (st_mode \<lparr>st_mode = 0x41ED, st_ino = 42\<rparr>) = FSAL_TYPE_DIR
      \<and> \<not> FSAL_IS_ERROR (fsal_internal_testAccess ex_env ex_ctx \<lparr>st_mode = 0x41ED, st_ino = 42\<rparr>)
      \<and> vfs_name_by_handle_at ex_env 3 (name \<lparr>name = ''missing''\<rparr>)
           ((data_vfs_handle ex_blank)\<lparr>handle_bytes := VFS_HANDLE_LEN ex_env\<rparr>)
         = (- 1, ENOENT, (data_vfs_handle ex_blank)\<lparr>handle_bytes := VFS_HANDLE_LEN ex_env\<rparr>)
      \<and> (- 1 :: int) \<noteq> 0
      \<and> posix2fsal_error ex_env ENOENT = ERR_FSAL_NOENT"
    by (simp add: ex_defs Return_def FSAL_IS_ERROR_def)
  from w have
    "res_status (VFSFSAL_lookup ex_env (Some ex_dir) (Some \<lparr>name = ''missing''\<rparr>) (Some ex_ctx)
       (Some ex_blank) None) = \<lparr>major = ERR_FSAL_NOENT, minor = ENOENT\<rparr>"
    using lookup_missing_name_not_found [of ex_env ex_ctx ex_dir
        "\<lparr>major = ERR_FSAL_NO_ERROR, minor = 0\<rparr>" 3 0 "\<lparr>st_mode = 0x41ED, st_ino = 42\<rparr>"
        "\<lparr>name = ''missing''\<rparr>" ex_blank "- 1"
        "(data_vfs_handle ex_blank)\<lparr>handle_bytes := VFS_HANDLE_LEN ex_env\<rparr>" None]
    by blast
  then show ?thesis by (simp add: ENOENT_def)
qed

end
